theory Spec2Isabelle
  imports Main
begin

section \<open>Python strings\<close>

text \<open>
  A Python \<open>str\<close> is modelled as a \<open>string\<close>: one \<open>char\<close> per code point, for
  the code points below 256. \<open>isspace\<close> lists the code points below 256 that
  \<open>str.strip()\<close> removes.
\<close>

definition isspace :: "char \<Rightarrow> bool" where
  "isspace c \<longleftrightarrow> c \<in> set [CHR 0x09, CHR 0x0A, CHR 0x0B, CHR 0x0C, CHR 0x0D,
     CHR 0x1C, CHR 0x1D, CHR 0x1E, CHR 0x1F, CHR 0x20, CHR 0x85, CHR 0xA0]"

text \<open>\<open>s.strip()\<close>: leading, then trailing whitespace removed.\<close>

definition strip :: "string \<Rightarrow> string" where
  "strip s = rev (dropWhile isspace (rev (dropWhile isspace s)))"

text \<open>\<open>s.split(sep)\<close> for a one-character separator: one more segment than separators.\<close>

fun split :: "char \<Rightarrow> string \<Rightarrow> string list" where
  "split sep [] = [[]]"
| "split sep (c # cs) =
     (if c = sep then [] # split sep cs
      else (case split sep cs of [] \<Rightarrow> [[c]] | p # ps \<Rightarrow> (c # p) # ps))"

fun startswith :: "string \<Rightarrow> string \<Rightarrow> bool" where
  "startswith [] s = True"
| "startswith (a # as) [] = False"
| "startswith (a # as) (c # cs) = (a = c \<and> startswith as cs)"

text \<open>\<open>sub in s\<close>.\<close>

fun contains :: "string \<Rightarrow> string \<Rightarrow> bool" where
  "contains sub [] = (sub = [])"
| "contains sub (c # cs) = (startswith sub (c # cs) \<or> contains sub cs)"

text \<open>The format specification \<open>{s:n}\<close> on a str: padded with spaces on the right to width n.\<close>

definition ljust :: "nat \<Rightarrow> string \<Rightarrow> string" where
  "ljust n s = s @ replicate (n - length s) (CHR '' '')"

definition digit_char :: "nat \<Rightarrow> char" where
  "digit_char d = char_of (48 + d)"

text \<open>\<open>{n}\<close> for a non-negative int: its decimal digits.\<close>

function str_int :: "nat \<Rightarrow> string" where
  "str_int n = (if n < 10 then [digit_char n] else str_int (n div 10) @ [digit_char (n mod 10)])"
  by pat_completeness auto
termination
  by (relation "measure id") auto

declare str_int.simps [simp del]

section \<open>The scan loop\<close>

text \<open>
  \<open>parts = [p.strip() for p in line.split("|") if p.strip()]\<close>
\<close>

definition parts_of :: "string \<Rightarrow> string list" where
  "parts_of line = [strip p. p \<leftarrow> split (CHR ''|'') line, strip p \<noteq> []]"

text \<open>
  The three tests of the loop, named as the glossary names them: the table-start trigger
  of line 14, the candidate data row of line 17 (without the flag), the acceptance test
  of line 19.
\<close>

definition header_trigger :: "string \<Rightarrow> bool" where
  "header_trigger line \<longleftrightarrow> contains ''Runtime'' line \<and> contains ''Min'' line"

definition candidate :: "string \<Rightarrow> bool" where
  "candidate line \<longleftrightarrow> strip line \<noteq> [] \<and> contains ''|'' line"

definition accepted :: "string \<Rightarrow> bool" where
  "accepted line \<longleftrightarrow> 4 \<le> length (parts_of line) \<and> parts_of line ! 0 \<noteq> ''Runtime''"

text \<open>
  The loop of parse-bench-output.py, lines 13 to 22, over the remaining lines, with the
  variables \<open>in_table\<close> and \<open>results\<close> as arguments. \<open>continue\<close> goes on with the
  rest, \<open>break\<close> returns the results.
\<close>

fun scan_output :: "bool \<Rightarrow> string list list \<Rightarrow> string list \<Rightarrow> string list list" where
  "scan_output in_table results [] = results"
| "scan_output in_table results (line # lines) =
     (if contains ''Runtime'' line \<and> contains ''Min'' line then scan_output True results lines
      else if in_table \<and> strip line \<noteq> [] \<and> contains ''|'' line then
        (let parts = parts_of line in
         if 4 \<le> length parts \<and> parts ! 0 \<noteq> ''Runtime''
         then scan_output in_table (results @ [parts]) lines
         else scan_output in_table results lines)
      else if in_table \<and> strip line = [] then results
      else scan_output in_table results lines)"

text \<open>The loop of parse-bench-summary.py, lines 11 to 20.\<close>

fun scan_summary :: "bool \<Rightarrow> string list list \<Rightarrow> string list \<Rightarrow> string list list" where
  "scan_summary in_table results [] = results"
| "scan_summary in_table results (line # lines) =
     (if contains ''Runtime'' line \<and> contains ''Min'' line then scan_summary True results lines
      else if in_table \<and> strip line \<noteq> [] \<and> contains ''|'' line then
        (let parts = parts_of line in
         if 4 \<le> length parts \<and> parts ! 0 \<noteq> ''Runtime''
         then scan_summary in_table (results @ [parts]) lines
         else scan_summary in_table results lines)
      else if in_table \<and> strip line = [] then results
      else scan_summary in_table results lines)"

text \<open>
  The parsing stage of each script: \<open>lines = content.split("\n")\<close>, \<open>in_table = False\<close>,
  \<open>results = []\<close>, then the loop.
\<close>

definition results_output :: "string \<Rightarrow> string list list" where
  "results_output content = scan_output False [] (split (CHR 0x0A) content)"

definition results_summary :: "string \<Rightarrow> string list list" where
  "results_summary content = scan_summary False [] (split (CHR 0x0A) content)"

section \<open>The scripts\<close>

datatype error = FileNotFoundError | IndexError

text \<open>
  What the scripts read and write: the two files of the working directory (None when
  the file does not exist) and the text sent to standard output.
\<close>

record world =
  bench_output_log :: "string option"
  bench_summary_md :: "string option"
  stdout :: string

text \<open>\<open>print(s)\<close>\<close>

definition print :: "string \<Rightarrow> world \<Rightarrow> world" where
  "print s w = w\<lparr>stdout := stdout w @ s @ [CHR 0x0A]\<rparr>"

text \<open>\<open>f.write(s)\<close> on bench-summary.md, opened for writing.\<close>

definition f_write :: "string \<Rightarrow> world \<Rightarrow> world" where
  "f_write s w =
     w\<lparr>bench_summary_md := Some ((case bench_summary_md w of None \<Rightarrow> [] | Some t \<Rightarrow> t) @ s)\<rparr>"

text \<open>\<open>r[i]\<close>\<close>

definition getitem :: "'a list \<Rightarrow> nat \<Rightarrow> error + 'a" where
  "getitem r i = (if i < length r then Inr (r ! i) else Inl IndexError)"

definition bind_err :: "error + 'a \<Rightarrow> ('a \<Rightarrow> error + 'b) \<Rightarrow> error + 'b" where
  "bind_err m f = (case m of Inl e \<Rightarrow> Inl e | Inr x \<Rightarrow> f x)"

text \<open>\<open>f"| {r[0]:7} | {r[1]:5} | {r[2]:5} | {r[3]:5} |"\<close>\<close>

definition console_row :: "string list \<Rightarrow> error + string" where
  "console_row r =
     bind_err (getitem r 0) (\<lambda>r0. bind_err (getitem r 1) (\<lambda>r1.
     bind_err (getitem r 2) (\<lambda>r2. bind_err (getitem r 3) (\<lambda>r3.
       Inr (''| '' @ ljust 7 r0 @ '' | '' @ ljust 5 r1 @ '' | '' @ ljust 5 r2 @ '' | ''
              @ ljust 5 r3 @ '' |'')))))"

text \<open>\<open>f"| {r[0]} | {r[1]} | {r[2]} | {r[3]} |\n"\<close>\<close>

definition summary_row :: "string list \<Rightarrow> error + string" where
  "summary_row r =
     bind_err (getitem r 0) (\<lambda>r0. bind_err (getitem r 1) (\<lambda>r1.
     bind_err (getitem r 2) (\<lambda>r2. bind_err (getitem r 3) (\<lambda>r3.
       Inr (''| '' @ r0 @ '' | '' @ r1 @ '' | '' @ r2 @ '' | '' @ r3 @ '' |'' @ [CHR 0x0A])))))"

text \<open>
  \<open>for r in results: print(...)\<close>: an exception ends the loop with what was printed
  so far.
\<close>

fun print_rows :: "string list list \<Rightarrow> world \<Rightarrow> error option \<times> world" where
  "print_rows [] w = (None, w)"
| "print_rows (r # rs) w =
     (case console_row r of Inl e \<Rightarrow> (Some e, w) | Inr s \<Rightarrow> print_rows rs (print s w))"

text \<open>\<open>for r in results: f.write(...)\<close>\<close>

fun write_rows :: "string list list \<Rightarrow> world \<Rightarrow> error option \<times> world" where
  "write_rows [] w = (None, w)"
| "write_rows (r # rs) w =
     (case summary_row r of Inl e \<Rightarrow> (Some e, w) | Inr s \<Rightarrow> write_rows rs (f_write s w))"

text \<open>
  Lines 24 to 31 of parse-bench-output.py: the table, or the line that says there is none.
\<close>

definition print_output :: "string list list \<Rightarrow> world \<Rightarrow> error option \<times> world" where
  "print_output results w =
     (if results \<noteq> [] then
        (case print_rows results
                (print ''|---------|-------|-------|-------|''
                  (print (CHR 0x0A # ''| Runtime | Min   | Max   | Avg   |'') w)) of
           (Some e, w') \<Rightarrow> (Some e, w')
         | (None, w') \<Rightarrow>
             (None, print (CHR 0x0A # ''Total: '' @ str_int (length results) @ '' runtimes tested'') w'))
      else (None, print ''No benchmark results found'' w))"

text \<open>Lines 32 to 37 of parse-bench-summary.py: the same table, and no \<open>else\<close>.\<close>

definition print_summary :: "string list list \<Rightarrow> world \<Rightarrow> error option \<times> world" where
  "print_summary results w =
     (if results \<noteq> [] then
        (case print_rows results
                (print ''|---------|-------|-------|-------|''
                  (print (CHR 0x0A # ''| Runtime | Min   | Max   | Avg   |'') w)) of
           (Some e, w') \<Rightarrow> (Some e, w')
         | (None, w') \<Rightarrow>
             (None, print (CHR 0x0A # ''Total: '' @ str_int (length results) @ '' runtimes tested'') w'))
      else (None, w))"

text \<open>
  Lines 23 to 29 of parse-bench-summary.py. Opening the file for writing empties it.
\<close>

definition write_summary :: "string list list \<Rightarrow> world \<Rightarrow> error option \<times> world" where
  "write_summary results w =
     (case write_rows results
             (f_write (''|--------|-----|-----|-----|'' @ [CHR 0x0A])
               (f_write (''| Runtime | Min | Max | Avg |'' @ [CHR 0x0A])
                 (f_write (CHR 0x0A # ''## Performance Benchmarks'' @ [CHR 0x0A, CHR 0x0A])
                   (w\<lparr>bench_summary_md := Some []\<rparr>)))) of
        (Some e, w') \<Rightarrow> (Some e, w')
      | (None, w') \<Rightarrow>
          (None, f_write (CHR 0x0A # ''**Total runtimes tested:** '' @ str_int (length results)
                            @ [CHR 0x0A]) w'))"

text \<open>parse-bench-output.py\<close>

definition parse_bench_output :: "world \<Rightarrow> error option \<times> world" where
  "parse_bench_output w =
     (case bench_output_log w of
        None \<Rightarrow> (Some FileNotFoundError, w)
      | Some content \<Rightarrow> print_output (results_output content) w)"

text \<open>parse-bench-summary.py\<close>

definition parse_bench_summary :: "world \<Rightarrow> error option \<times> world" where
  "parse_bench_summary w =
     (case bench_output_log w of
        None \<Rightarrow> (Some FileNotFoundError, w)
      | Some content \<Rightarrow>
          (case write_summary (results_summary content) w of
             (Some e, w') \<Rightarrow> (Some e, w')
           | (None, w') \<Rightarrow> print_summary (results_summary content) w'))"

section \<open>Facts about the string operations\<close>

lemma strip_Nil_iff: "strip s = [] \<longleftrightarrow> (\<forall>c\<in>set s. isspace c)"
proof -
  have "strip s = [] \<longleftrightarrow> (\<forall>c\<in>set (dropWhile isspace s). isspace c)"
    by (simp add: strip_def dropWhile_eq_Nil_conv)
  also have "\<dots> \<longleftrightarrow> (\<forall>c\<in>set s. isspace c)"
  proof
    assume a: "\<forall>c\<in>set (dropWhile isspace s). isspace c"
    show "\<forall>c\<in>set s. isspace c"
    proof
      fix c assume "c \<in> set s"
      then have "c \<in> set (takeWhile isspace s) \<or> c \<in> set (dropWhile isspace s)"
        by (metis Un_iff set_append takeWhile_dropWhile_id)
      then show "isspace c" using a by (auto dest: set_takeWhileD)
    qed
  next
    assume "\<forall>c\<in>set s. isspace c"
    then show "\<forall>c\<in>set (dropWhile isspace s). isspace c"
      by (auto dest: set_dropWhileD)
  qed
  finally show ?thesis .
qed

lemma set_strip: "set (strip s) \<subseteq> set s"
proof
  fix c assume "c \<in> set (strip s)"
  then have "c \<in> set (dropWhile isspace (rev (dropWhile isspace s)))"
    by (simp add: strip_def)
  then have "c \<in> set (rev (dropWhile isspace s))" by (rule set_dropWhileD)
  then have "c \<in> set (dropWhile isspace s)" by simp
  then show "c \<in> set s" by (rule set_dropWhileD)
qed

lemma last_dropWhile_keep: "dropWhile P xs \<noteq> [] \<Longrightarrow> last (dropWhile P xs) = last xs"
  by (metis last_appendR takeWhile_dropWhile_id)

lemma strip_ends:
  assumes "strip s \<noteq> []"
  shows "\<not> isspace (hd (strip s)) \<and> \<not> isspace (last (strip s))"
proof -
  let ?t = "dropWhile isspace s"
  let ?u = "dropWhile isspace (rev ?t)"
  from assms have u: "?u \<noteq> []" by (simp add: strip_def)
  have t: "?t \<noteq> []"
  proof
    assume e: "?t = []"
    have "?u = []" unfolding e by simp
    with u show False by simp
  qed
  have "last (strip s) = hd ?u" using u by (simp add: strip_def last_rev)
  moreover have "\<not> isspace (hd ?u)" using u by (rule hd_dropWhile)
  moreover have "hd (strip s) = last ?u" using u by (simp add: strip_def hd_rev)
  moreover have "last ?u = last (rev ?t)" using u by (rule last_dropWhile_keep)
  moreover have "last (rev ?t) = hd ?t" using t by (simp add: last_rev)
  moreover have "\<not> isspace (hd ?t)" using t by (rule hd_dropWhile)
  ultimately show ?thesis by simp
qed

lemma startswith_mem: "startswith sub s \<Longrightarrow> c \<in> set sub \<Longrightarrow> c \<in> set s"
  by (induction sub s rule: startswith.induct) auto

lemma contains_mem: "contains sub s \<Longrightarrow> c \<in> set sub \<Longrightarrow> c \<in> set s"
proof (induction s)
  case Nil
  then show ?case by simp
next
  case (Cons a s)
  from Cons.prems(1) have "startswith sub (a # s) \<or> contains sub s" by simp
  then show ?case
  proof
    assume "startswith sub (a # s)"
    then show ?thesis using Cons.prems(2) by (rule startswith_mem)
  next
    assume "contains sub s"
    then have "c \<in> set s" using Cons.prems(2) by (rule Cons.IH)
    then show ?thesis by simp
  qed
qed

lemma contains_pipe: "contains ''|'' s \<longleftrightarrow> CHR ''|'' \<in> set s"
  by (induction s) auto

lemma blank_no_Runtime: "strip line = [] \<Longrightarrow> \<not> contains ''Runtime'' line"
proof
  assume b: "strip line = []" and c: "contains ''Runtime'' line"
  from c have "CHR ''R'' \<in> set line" by (rule contains_mem) simp
  with b have "isspace (CHR ''R'')" by (simp add: strip_Nil_iff)
  then show False by (simp add: isspace_def)
qed

text \<open>The first branch of the \<open>case\<close> in \<open>split\<close> is never taken.\<close>

lemma split_not_Nil: "split sep s \<noteq> []"
  by (induction s) (auto split: list.splits)

lemma split_no_sep: "p \<in> set (split sep s) \<Longrightarrow> sep \<notin> set p"
  by (induction s arbitrary: p) (auto split: if_splits list.splits)

lemma parts_of_alt:
  "parts_of line = map strip (filter (\<lambda>p. strip p \<noteq> []) (split (CHR ''|'') line))"
proof -
  have "concat (map (\<lambda>p. if strip p \<noteq> [] then [strip p] else []) xs)
          = map strip (filter (\<lambda>p. strip p \<noteq> []) xs)" for xs
    by (induction xs) auto
  then show ?thesis by (simp add: parts_of_def)
qed

lemma parts_of_field:
  assumes "f \<in> set (parts_of line)"
  shows "f \<noteq> [] \<and> CHR ''|'' \<notin> set f \<and> \<not> isspace (hd f) \<and> \<not> isspace (last f)"
proof -
  from assms obtain p where p: "p \<in> set (split (CHR ''|'') line)" and f: "f = strip p"
    and ne: "strip p \<noteq> []"
    by (auto simp: parts_of_alt)
  from p have "CHR ''|'' \<notin> set p" by (rule split_no_sep)
  then have "CHR ''|'' \<notin> set f" using set_strip [of p] f by auto
  then show ?thesis using f ne strip_ends [of p] by simp
qed

section \<open>Facts about the scan loop\<close>

lemma scan_summary_eq: "scan_summary in_table results lines = scan_output in_table results lines"
  by (induction lines arbitrary: in_table results) (simp_all add: Let_def)

lemma scan_output_Cons:
  "scan_output in_table results (line # lines) =
     (if header_trigger line then scan_output True results lines
      else if in_table \<and> candidate line then
        (if accepted line then scan_output in_table (results @ [parts_of line]) lines
         else scan_output in_table results lines)
      else if in_table \<and> strip line = [] then results
      else scan_output in_table results lines)"
  by (simp add: header_trigger_def candidate_def accepted_def Let_def)

lemma scan_output_record:
  "r \<in> set (scan_output in_table results lines) \<Longrightarrow>
     r \<in> set results \<or> (\<exists>l\<in>set lines. r = parts_of l \<and> accepted l \<and> candidate l \<and> \<not> header_trigger l)"
proof (induction lines arbitrary: in_table results)
  case Nil
  then show ?case by simp
next
  case (Cons line lines)
  show ?case
  proof (cases "header_trigger line")
    case True
    with Cons.prems have "r \<in> set (scan_output True results lines)"
      by (simp only: scan_output_Cons if_True)
    from Cons.IH [OF this] show ?thesis by auto
  next
    case nt: False
    show ?thesis
    proof (cases "in_table \<and> candidate line")
      case c: True
      show ?thesis
      proof (cases "accepted line")
        case True
        with nt c Cons.prems have "r \<in> set (scan_output in_table (results @ [parts_of line]) lines)"
          by (simp only: scan_output_Cons if_True if_False simp_thms)
        from Cons.IH [OF this] show ?thesis using True nt c by auto
      next
        case False
        with nt c Cons.prems have "r \<in> set (scan_output in_table results lines)"
          by (simp only: scan_output_Cons if_True if_False simp_thms)
        from Cons.IH [OF this] show ?thesis by auto
      qed
    next
      case False
      with nt Cons.prems have "r \<in> set results \<or> r \<in> set (scan_output in_table results lines)"
        by (simp only: scan_output_Cons if_True if_False simp_thms split: if_splits)
      then show ?thesis using Cons.IH by auto
    qed
  qed
qed

lemma scan_output_skip_pre:
  "\<forall>l\<in>set pre. \<not> header_trigger l \<Longrightarrow> scan_output False results (pre @ lines) = scan_output False results lines"
  by (induction pre) (simp_all add: scan_output_Cons del: scan_output.simps(2))

lemma scan_output_blank:
  "strip blank = [] \<Longrightarrow> scan_output True results (blank # post) = results"
  by (simp add: blank_no_Runtime)

lemma scan_output_body:
  "\<forall>l\<in>set body. strip l \<noteq> [] \<Longrightarrow>
     scan_output True results (body @ rest)
       = scan_output True
           (results @ map parts_of (filter (\<lambda>l. \<not> header_trigger l \<and> candidate l \<and> accepted l) body)) rest"
proof (induction body arbitrary: results)
  case Nil
  then show ?case by simp
next
  case (Cons l body)
  then have IH: "\<And>rs. scan_output True rs (body @ rest)
       = scan_output True
           (rs @ map parts_of (filter (\<lambda>l. \<not> header_trigger l \<and> candidate l \<and> accepted l) body)) rest"
    by simp
  from Cons.prems have ne: "strip l \<noteq> []" by simp
  show ?case
    using ne by (simp add: IH scan_output_Cons del: scan_output.simps(2))
qed

lemma scan_output_stop:
  "in_table \<or> (\<exists>l\<in>set pre. header_trigger l) \<Longrightarrow> strip blank = [] \<Longrightarrow>
     scan_output in_table results (pre @ blank # post) = scan_output in_table results pre"
proof (induction pre arbitrary: in_table results)
  case Nil
  then show ?case by (simp add: blank_no_Runtime)
next
  case (Cons l pre)
  show ?case
  proof (cases "header_trigger l")
    case True
    then show ?thesis using Cons.IH [of True results] Cons.prems(2)
      by (simp add: scan_output_Cons del: scan_output.simps(2))
  next
    case False
    with Cons.prems have "in_table \<or> (\<exists>l\<in>set pre. header_trigger l)" by auto
    from Cons.IH [OF this Cons.prems(2)] Cons.IH [of True, OF _ Cons.prems(2)] show ?thesis
      using False by (simp add: scan_output_Cons del: scan_output.simps(2))
  qed
qed

section \<open>Facts about the scripts\<close>

lemma results_summary_eq: "results_summary content = results_output content"
  by (simp add: results_summary_def results_output_def scan_summary_eq)

lemma results_output_record:
  assumes "r \<in> set (results_output content)"
  shows "\<exists>l\<in>set (split (CHR 0x0A) content). r = parts_of l \<and> accepted l \<and> candidate l \<and> \<not> header_trigger l"
  using scan_output_record [of r False "[]" "split (CHR 0x0A) content"] assms
  by (simp add: results_output_def)

lemma results_output_length: "r \<in> set (results_output content) \<Longrightarrow> 4 \<le> length r"
  by (auto dest: results_output_record simp: accepted_def)

lemma console_row_4:
  "4 \<le> length r \<Longrightarrow>
     console_row r = Inr (''| '' @ ljust 7 (r ! 0) @ '' | '' @ ljust 5 (r ! 1) @ '' | ''
                            @ ljust 5 (r ! 2) @ '' | '' @ ljust 5 (r ! 3) @ '' |'')"
  by (auto simp: console_row_def getitem_def bind_err_def)

lemma summary_row_4:
  "4 \<le> length r \<Longrightarrow>
     summary_row r = Inr (''| '' @ r ! 0 @ '' | '' @ r ! 1 @ '' | '' @ r ! 2 @ '' | '' @ r ! 3
                            @ '' |'' @ [CHR 0x0A])"
  by (auto simp: summary_row_def getitem_def bind_err_def)

lemma print_rows_ok:
  "\<forall>r\<in>set rs. 4 \<le> length r \<Longrightarrow>
     print_rows rs w =
       (None, w\<lparr>stdout := stdout w @ concat (map (\<lambda>r. ''| '' @ ljust 7 (r ! 0) @ '' | '' @ ljust 5 (r ! 1) @ '' | ''
                            @ ljust 5 (r ! 2) @ '' | '' @ ljust 5 (r ! 3) @ '' |'' @ [CHR 0x0A]) rs)\<rparr>)"
proof (induction rs arbitrary: w)
  case Nil
  then show ?case by simp
next
  case (Cons r rs)
  from Cons.prems have "4 \<le> length r" by simp
  then have s: "console_row r = Inr (''| '' @ ljust 7 (r ! 0) @ '' | '' @ ljust 5 (r ! 1) @ '' | ''
                            @ ljust 5 (r ! 2) @ '' | '' @ ljust 5 (r ! 3) @ '' |'')"
    by (rule console_row_4)
  from Cons.prems have "\<forall>r\<in>set rs. 4 \<le> length r" by simp
  from Cons.IH [OF this] s show ?case
    by (simp add: print_def)
qed

lemma write_rows_ok:
  "\<forall>r\<in>set rs. 4 \<le> length r \<Longrightarrow> bench_summary_md w = Some t \<Longrightarrow>
     write_rows rs w =
       (None, w\<lparr>bench_summary_md := Some (t @ concat (map (\<lambda>r. ''| '' @ r ! 0 @ '' | '' @ r ! 1 @ '' | '' @ r ! 2 @ '' | '' @ r ! 3
                            @ '' |'' @ [CHR 0x0A]) rs))\<rparr>)"
proof (induction rs arbitrary: w t)
  case Nil
  then show ?case by simp
next
  case (Cons r rs)
  from Cons.prems have "4 \<le> length r" by simp
  then have s: "summary_row r = Inr (''| '' @ r ! 0 @ '' | '' @ r ! 1 @ '' | '' @ r ! 2 @ '' | ''
                            @ r ! 3 @ '' |'' @ [CHR 0x0A])"
    by (rule summary_row_4)
  from Cons.prems have all: "\<forall>r\<in>set rs. 4 \<le> length r" by simp
  have md: "bench_summary_md (f_write s' w) = Some (t @ s')" for s'
    using Cons.prems(2) by (simp add: f_write_def)
  from Cons.IH [OF all md] s Cons.prems(2) show ?case
    by (simp add: f_write_def)
qed

lemma print_output_ok:
  assumes "\<forall>r\<in>set rs. 4 \<le> length r" and "rs \<noteq> []"
  shows "print_output rs w =
     (None, w\<lparr>stdout := stdout w @ CHR 0x0A # ''| Runtime | Min   | Max   | Avg   |'' @ [CHR 0x0A]
        @ ''|---------|-------|-------|-------|'' @ [CHR 0x0A]
        @ concat (map (\<lambda>r. ''| '' @ ljust 7 (r ! 0) @ '' | '' @ ljust 5 (r ! 1) @ '' | ''
                            @ ljust 5 (r ! 2) @ '' | '' @ ljust 5 (r ! 3) @ '' |'' @ [CHR 0x0A]) rs)
        @ CHR 0x0A # ''Total: '' @ str_int (length rs) @ '' runtimes tested'' @ [CHR 0x0A]\<rparr>)"
  using assms(2) by (simp add: print_output_def print_rows_ok [OF assms(1)] print_def)

lemma print_summary_ok:
  assumes "\<forall>r\<in>set rs. 4 \<le> length r" and "rs \<noteq> []"
  shows "print_summary rs w = print_output rs w"
  using assms(2) by (simp add: print_output_def print_summary_def)

lemma write_summary_ok:
  assumes "\<forall>r\<in>set rs. 4 \<le> length r"
  shows "write_summary rs w =
     (None, w\<lparr>bench_summary_md := Some (CHR 0x0A # ''## Performance Benchmarks'' @ [CHR 0x0A, CHR 0x0A]
        @ ''| Runtime | Min | Max | Avg |'' @ [CHR 0x0A]
        @ ''|--------|-----|-----|-----|'' @ [CHR 0x0A]
        @ concat (map (\<lambda>r. ''| '' @ r ! 0 @ '' | '' @ r ! 1 @ '' | '' @ r ! 2 @ '' | '' @ r ! 3
                            @ '' |'' @ [CHR 0x0A]) rs)
        @ CHR 0x0A # ''**Total runtimes tested:** '' @ str_int (length rs) @ [CHR 0x0A])\<rparr>)"
proof -
  let ?w = "f_write (''|--------|-----|-----|-----|'' @ [CHR 0x0A])
               (f_write (''| Runtime | Min | Max | Avg |'' @ [CHR 0x0A])
                 (f_write (CHR 0x0A # ''## Performance Benchmarks'' @ [CHR 0x0A, CHR 0x0A])
                   (w\<lparr>bench_summary_md := Some []\<rparr>)))"
  have md: "bench_summary_md ?w = Some (CHR 0x0A # ''## Performance Benchmarks'' @ [CHR 0x0A, CHR 0x0A]
        @ ''| Runtime | Min | Max | Avg |'' @ [CHR 0x0A]
        @ ''|--------|-----|-----|-----|'' @ [CHR 0x0A])"
    by (simp add: f_write_def)
  show ?thesis
    unfolding write_summary_def write_rows_ok [OF assms md]
    by (simp add: f_write_def)
qed

text \<open>
  The whole scan of a text made of lines without a trigger, the first trigger line,
  lines that are not blank, and then the end of the text or a blank line.
\<close>

lemma scan_output_table:
  assumes pre: "\<forall>l\<in>set pre. \<not> header_trigger l"
    and hdr: "header_trigger hdr"
    and body: "\<forall>l\<in>set body. strip l \<noteq> []"
    and rest: "rest = [] \<or> strip (hd rest) = []"
  shows "scan_output False [] (pre @ hdr # body @ rest)
           = map parts_of (filter (\<lambda>l. \<not> header_trigger l \<and> candidate l \<and> accepted l) body)"
proof -
  let ?rs = "map parts_of (filter (\<lambda>l. \<not> header_trigger l \<and> candidate l \<and> accepted l) body)"
  have "scan_output False [] (pre @ hdr # body @ rest) = scan_output False [] (hdr # body @ rest)"
    using pre by (rule scan_output_skip_pre)
  also have "\<dots> = scan_output True [] (body @ rest)"
    using hdr by (simp add: scan_output_Cons del: scan_output.simps(2))
  also have "\<dots> = scan_output True ?rs rest"
    using scan_output_body [OF body, of "[]" rest] by simp
  also have "\<dots> = ?rs"
  proof (cases rest)
    case Nil
    then show ?thesis by simp
  next
    case (Cons b post)
    with rest have "strip b = []" by simp
    then show ?thesis unfolding Cons by (rule scan_output_blank)
  qed
  finally show ?thesis .
qed

lemma row_take_4:
  "4 \<le> length r \<Longrightarrow> console_row (take 4 r) = console_row r \<and> summary_row (take 4 r) = summary_row r"
  by (simp add: console_row_4 summary_row_4)

lemma results_output_all_4: "\<forall>r\<in>set (results_output content). 4 \<le> length r"
  by (simp add: results_output_length)

lemma parse_bench_output_ok:
  assumes "bench_output_log w = Some content"
  shows "parse_bench_output w = print_output (results_output content) w"
  using assms by (simp add: parse_bench_output_def)

lemma parse_bench_summary_ok:
  assumes "bench_output_log w = Some content"
  shows "parse_bench_summary w =
     print_summary (results_output content)
       (w\<lparr>bench_summary_md := Some (CHR 0x0A # ''## Performance Benchmarks'' @ [CHR 0x0A, CHR 0x0A]
        @ ''| Runtime | Min | Max | Avg |'' @ [CHR 0x0A]
        @ ''|--------|-----|-----|-----|'' @ [CHR 0x0A]
        @ concat (map (\<lambda>r. ''| '' @ r ! 0 @ '' | '' @ r ! 1 @ '' | '' @ r ! 2 @ '' | '' @ r ! 3
                            @ '' |'' @ [CHR 0x0A]) (results_output content))
        @ CHR 0x0A # ''**Total runtimes tested:** '' @ str_int (length (results_output content))
        @ [CHR 0x0A])\<rparr>)"
  using assms
  by (simp add: parse_bench_summary_def results_summary_eq
      write_summary_ok [OF results_output_all_4])

lemma str_int_0: "str_int 0 = ''0''"
  by code_simp

lemma results_output_no_trigger:
  assumes "\<forall>l\<in>set (split (CHR 0x0A) content). \<not> header_trigger l"
  shows "results_output content = []"
  using scan_output_skip_pre [OF assms, of "[]" "[]"] by (simp add: results_output_def)

lemma results_output_none_accepted:
  assumes "\<forall>l\<in>set (split (CHR 0x0A) content). \<not> accepted l"
  shows "results_output content = []"
proof (rule ccontr)
  assume "results_output content \<noteq> []"
  then obtain r where "r \<in> set (results_output content)"
    by (cases "results_output content") auto
  from results_output_record [OF this] assms show False by blast
qed

section \<open>The claims\<close>

text \<open>
  C1, as amended. The lines of the text are \<open>pre\<close>, none with both "Runtime" and "Min",
  then the first header-trigger line \<open>hdr\<close>, then N lines \<open>rows\<close>, then the end of
  the text or a blank line and anything after it. When every line of \<open>rows\<close> is not
  blank, has a pipe, has at least 4 non-empty trimmed segments, has a first segment other
  than "Runtime", and does not itself contain both "Runtime" and "Min", both scripts parse
  exactly N records, in the order of the lines, each record being the trimmed non-empty
  segments of its line (so its first 4 fields are the first 4 segments).
\<close>

theorem rows_become_records:
  assumes "split (CHR 0x0A) content = pre @ hdr # rows @ rest"
    and "\<forall>l\<in>set pre. \<not> header_trigger l"
    and "header_trigger hdr"
    and "\<forall>l\<in>set rows. candidate l \<and> accepted l \<and> \<not> header_trigger l"
    and "rest = [] \<or> strip (hd rest) = []"
  shows "results_output content = map parts_of rows \<and> results_summary content = map parts_of rows
     \<and> length (results_output content) = length rows"
proof -
  from assms(4) have body: "\<forall>l\<in>set rows. strip l \<noteq> []" by (simp add: candidate_def)
  from assms(4) have "filter (\<lambda>l. \<not> header_trigger l \<and> candidate l \<and> accepted l) rows = rows"
    by (simp add: filter_id_conv)
  with scan_output_table [OF assms(2) assms(3) body assms(5)] assms(1)
  show ?thesis by (simp add: results_summary_eq results_output_def)
qed

text \<open>
  The theorem at a log with one line before the header, two rows, a blank line and a
  further row.
\<close>

theorem rows_become_records_witness:
  "results_output ''bench log\<newline>Runtime | Min | Max | Avg\<newline>| go | 1 | 5 | 3 |\<newline>| rust | 1 | 2 | 1 |\<newline>\<newline>| zig | 1 | 1 | 1 |''
     = [[''go'', ''1'', ''5'', ''3''], [''rust'', ''1'', ''2'', ''1'']]"
proof -
  let ?c = "''bench log\<newline>Runtime | Min | Max | Avg\<newline>| go | 1 | 5 | 3 |\<newline>| rust | 1 | 2 | 1 |\<newline>\<newline>| zig | 1 | 1 | 1 |''"
  let ?rows = "[''| go | 1 | 5 | 3 |'', ''| rust | 1 | 2 | 1 |'']"
  have 1: "split (CHR 0x0A) ?c = [''bench log''] @ ''Runtime | Min | Max | Avg'' # ?rows @ ['''', ''| zig | 1 | 1 | 1 |'']"
    by simp
  have 2: "\<forall>l\<in>set [''bench log'']. \<not> header_trigger l"
    by (simp add: header_trigger_def)
  have 3: "header_trigger ''Runtime | Min | Max | Avg''"
    by (simp add: header_trigger_def)
  have 4: "\<forall>l\<in>set ?rows. candidate l \<and> accepted l \<and> \<not> header_trigger l"
    by (simp add: header_trigger_def candidate_def accepted_def parts_of_def strip_def isspace_def)
  have 5: "['''', ''| zig | 1 | 1 | 1 |''] = [] \<or> strip (hd ['''', ''| zig | 1 | 1 | 1 |'']) = []"
    by (simp add: strip_def)
  from rows_become_records [OF 1 2 3 4 5] show ?thesis
    by (simp add: parts_of_def strip_def isspace_def)
qed

text \<open>
  C1 as stated fails: the row below is not blank, has a pipe, splits into 4 non-empty
  segments and does not start with "Runtime", yet it contains "Runtime" and "Min", line 14
  takes it for a header, and the header followed by this one row parses to no record.
\<close>

theorem row_with_header_words_dropped:
  "split (CHR 0x0A) ''Runtime Min\<newline>| MinRuntime | 1 | 2 | 3 |''
       = [] @ ''Runtime Min'' # [''| MinRuntime | 1 | 2 | 3 |''] @ []
   \<and> header_trigger ''Runtime Min''
   \<and> candidate ''| MinRuntime | 1 | 2 | 3 |''
   \<and> parts_of ''| MinRuntime | 1 | 2 | 3 |'' = [''MinRuntime'', ''1'', ''2'', ''3'']
   \<and> accepted ''| MinRuntime | 1 | 2 | 3 |''
   \<and> results_output ''Runtime Min\<newline>| MinRuntime | 1 | 2 | 3 |'' = []"
  by (simp add: header_trigger_def candidate_def accepted_def parts_of_def strip_def isspace_def
      results_output_def)

text \<open>
  C2, as amended. The test of line 14 is made on every line, so a line with both "Runtime"
  and "Min" is discarded before and after table-start and is never a record. After the
  first header line and before the first blank line, the records are, in order, the
  segments of exactly the lines that are candidate data rows, do not contain both
  "Runtime" and "Min", have at least 4 segments and have a first segment other than
  "Runtime".
\<close>

theorem accepted_rows_are_records:
  assumes "split (CHR 0x0A) content = pre @ hdr # body @ rest"
    and "\<forall>l\<in>set pre. \<not> header_trigger l"
    and "header_trigger hdr"
    and "\<forall>l\<in>set body. strip l \<noteq> []"
    and "rest = [] \<or> strip (hd rest) = []"
  shows "results_output content
           = map parts_of (filter (\<lambda>l. \<not> header_trigger l \<and> candidate l \<and> accepted l) body)
       \<and> results_summary content
           = map parts_of (filter (\<lambda>l. \<not> header_trigger l \<and> candidate l \<and> accepted l) body)"
  using scan_output_table [OF assms(2-5)] assms(1)
  by (simp add: results_summary_eq results_output_def)

text \<open>
  The theorem at a log whose table has a repeated header, a row with both words, a short
  row, a line without a pipe and one valid row.
\<close>

theorem accepted_rows_are_records_witness:
  "results_output ''Runtime | Min | Max | Avg\<newline>| Runtime | Max | Avg | P99 |\<newline>| node (Min Runtime) | 1 | 2 | 3 |\<newline>| go | 1 | 5 |\<newline>done\<newline>| rust | 1 | 2 | 1 |\<newline> \<newline>| zig | 1 | 1 | 1 |''
     = [[''rust'', ''1'', ''2'', ''1'']]"
proof -
  let ?c = "''Runtime | Min | Max | Avg\<newline>| Runtime | Max | Avg | P99 |\<newline>| node (Min Runtime) | 1 | 2 | 3 |\<newline>| go | 1 | 5 |\<newline>done\<newline>| rust | 1 | 2 | 1 |\<newline> \<newline>| zig | 1 | 1 | 1 |''"
  let ?body = "[''| Runtime | Max | Avg | P99 |'', ''| node (Min Runtime) | 1 | 2 | 3 |'',
                ''| go | 1 | 5 |'', ''done'', ''| rust | 1 | 2 | 1 |'']"
  have 1: "split (CHR 0x0A) ?c = [] @ ''Runtime | Min | Max | Avg'' # ?body @ ['' '', ''| zig | 1 | 1 | 1 |'']"
    by simp
  have 2: "\<forall>l\<in>set []. \<not> header_trigger l"
    by simp
  have 3: "header_trigger ''Runtime | Min | Max | Avg''"
    by (simp add: header_trigger_def)
  have 4: "\<forall>l\<in>set ?body. strip l \<noteq> []"
    by (simp add: strip_def isspace_def)
  have 5: "['' '', ''| zig | 1 | 1 | 1 |''] = [] \<or> strip (hd ['' '', ''| zig | 1 | 1 | 1 |'']) = []"
    by (simp add: strip_def isspace_def)
  from accepted_rows_are_records [OF 1 2 3 4 5] show ?thesis
    by (simp add: header_trigger_def candidate_def accepted_def parts_of_def strip_def isspace_def)
qed

text \<open>
  C2 as stated fails: after table-start the candidate row below has 4 segments and a
  first segment other than "Runtime", and is not accepted, because it contains "Runtime"
  and "Min".
\<close>

theorem candidate_with_header_words_rejected:
  "candidate ''| node (Min Runtime) | 1 | 2 | 3 |''
   \<and> parts_of ''| node (Min Runtime) | 1 | 2 | 3 |'' = [''node (Min Runtime)'', ''1'', ''2'', ''3'']
   \<and> accepted ''| node (Min Runtime) | 1 | 2 | 3 |''
   \<and> results_output ''Runtime | Min | Max | Avg\<newline>| node (Min Runtime) | 1 | 2 | 3 |\<newline>| go | 1 | 5 | 3 |''
       = [[''go'', ''1'', ''5'', ''3'']]"
  by (simp add: header_trigger_def candidate_def accepted_def parts_of_def strip_def isspace_def
      results_output_def)

text \<open>
  C3, as amended. \<open>results.append(parts)\<close> stores the whole list of segments, so
  a record has at least 4 fields, not exactly 4: it is the full list of non-empty trimmed
  segments of one line of the input. Both row formats read the fields 0 to 3 only, so the
  segments after the fourth never reach the output, and no row raises an IndexError.
\<close>

theorem records_keep_all_segments:
  "\<forall>r\<in>set (results_output content) \<union> set (results_summary content).
     4 \<le> length r
     \<and> (\<exists>l\<in>set (split (CHR 0x0A) content). r = parts_of l)
     \<and> console_row r = console_row (take 4 r)
     \<and> summary_row r = summary_row (take 4 r)"
proof
  fix r assume "r \<in> set (results_output content) \<union> set (results_summary content)"
  then have r: "r \<in> set (results_output content)" by (simp add: results_summary_eq)
  then have len: "4 \<le> length r" by (rule results_output_length)
  from results_output_record [OF r] have "\<exists>l\<in>set (split (CHR 0x0A) content). r = parts_of l"
    by blast
  with len row_take_4 [OF len]
  show "4 \<le> length r \<and> (\<exists>l\<in>set (split (CHR 0x0A) content). r = parts_of l)
     \<and> console_row r = console_row (take 4 r) \<and> summary_row r = summary_row (take 4 r)"
    by simp
qed

text \<open>
  The theorem at a log whose one row has five segments.
\<close>

theorem records_keep_all_segments_witness:
  "[''deno'', ''2'', ''9'', ''4'', ''ms''] \<in> set (results_output ''Runtime | Min\<newline>| deno | 2 | 9 | 4 | ms |'')
   \<and> console_row [''deno'', ''2'', ''9'', ''4'', ''ms''] = Inr ''| deno    | 2     | 9     | 4     |''
   \<and> summary_row [''deno'', ''2'', ''9'', ''4'', ''ms''] = Inr ''| deno | 2 | 9 | 4 |\<newline>''"
proof -
  let ?c = "''Runtime | Min\<newline>| deno | 2 | 9 | 4 | ms |''"
  let ?r = "[''deno'', ''2'', ''9'', ''4'', ''ms'']"
  have m: "?r \<in> set (results_output ?c) \<union> set (results_summary ?c)"
    by (simp add: results_output_def parts_of_def strip_def isspace_def)
  from records_keep_all_segments [of ?c] m
  have "console_row ?r = console_row (take 4 ?r) \<and> summary_row ?r = summary_row (take 4 ?r)"
    by blast
  moreover have "console_row (take 4 ?r) = Inr ''| deno    | 2     | 9     | 4     |''"
    by (simp add: console_row_def getitem_def bind_err_def ljust_def eval_nat_numeral)
  moreover have "summary_row (take 4 ?r) = Inr ''| deno | 2 | 9 | 4 |\<newline>''"
    by (simp add: summary_row_def getitem_def bind_err_def)
  moreover have "?r \<in> set (results_output ?c)"
    by (simp add: results_output_def parts_of_def strip_def isspace_def)
  ultimately show ?thesis by simp
qed

text \<open>
  C3 as stated fails: a row of five segments gives a record of five fields, the fifth
  segment kept.
\<close>

theorem record_with_five_fields:
  "results_output ''Runtime Min\<newline>| a | b | c | d | e |'' = [[''a'', ''b'', ''c'', ''d'', ''e'']]
   \<and> length (results_output ''Runtime Min\<newline>| a | b | c | d | e |'' ! 0) = 5"
  by (simp add: results_output_def parts_of_def strip_def isspace_def)

text \<open>
  C4. The loop of parse-bench-summary.py computes what the loop of parse-bench-output.py
  computes, from every state and on every list of lines, and so the two parsing stages
  give the same records for every input text.
\<close>

theorem scripts_parse_alike:
  "scan_summary in_table results lines = scan_output in_table results lines
   \<and> results_summary content = results_output content"
  by (simp add: results_summary_def results_output_def scan_summary_eq)

text \<open>
  C10. Every field of every record, in both scripts, is not empty, has no pipe, and
  neither starts nor ends with a whitespace character.
\<close>

theorem fields_are_stripped_segments:
  "\<forall>r\<in>set (results_output content) \<union> set (results_summary content). \<forall>f\<in>set r.
     f \<noteq> [] \<and> CHR ''|'' \<notin> set f \<and> \<not> isspace (hd f) \<and> \<not> isspace (last f)"
proof (intro ballI)
  fix r f
  assume "r \<in> set (results_output content) \<union> set (results_summary content)" and f: "f \<in> set r"
  then have "r \<in> set (results_output content)" by (simp add: results_summary_eq)
  from results_output_record [OF this] obtain l where "r = parts_of l" by blast
  with f have "f \<in> set (parts_of l)" by simp
  then show "f \<noteq> [] \<and> CHR ''|'' \<notin> set f \<and> \<not> isspace (hd f) \<and> \<not> isspace (last f)"
    by (rule parts_of_field)
qed

text \<open>
  The theorem at a row with spaces around its segments and an empty segment.
\<close>

theorem fields_are_stripped_segments_witness:
  "[''go'', ''1.2'', ''5.6'', ''3.1''] \<in> set (results_output ''Runtime Min\<newline>|  go | 1.2 |   5.6 || 3.1  '')
   \<and> ''go'' \<noteq> [] \<and> CHR ''|'' \<notin> set ''go'' \<and> \<not> isspace (hd ''go'') \<and> \<not> isspace (last ''go'')
   \<and> ''3.1'' \<noteq> [] \<and> CHR ''|'' \<notin> set ''3.1'' \<and> \<not> isspace (hd ''3.1'') \<and> \<not> isspace (last ''3.1'')"
proof -
  let ?c = "''Runtime Min\<newline>|  go | 1.2 |   5.6 || 3.1  ''"
  have m: "[''go'', ''1.2'', ''5.6'', ''3.1''] \<in> set (results_output ?c)"
    by (simp add: results_output_def parts_of_def strip_def isspace_def)
  then have "[''go'', ''1.2'', ''5.6'', ''3.1''] \<in> set (results_output ?c) \<union> set (results_summary ?c)"
    by simp
  with fields_are_stripped_segments [of ?c]
  have "\<forall>f\<in>set [''go'', ''1.2'', ''5.6'', ''3.1''].
          f \<noteq> [] \<and> CHR ''|'' \<notin> set f \<and> \<not> isspace (hd f) \<and> \<not> isspace (last f)"
    by blast
  then have "''go'' \<noteq> [] \<and> CHR ''|'' \<notin> set ''go'' \<and> \<not> isspace (hd ''go'') \<and> \<not> isspace (last ''go'')"
    and "''3.1'' \<noteq> [] \<and> CHR ''|'' \<notin> set ''3.1'' \<and> \<not> isspace (hd ''3.1'') \<and> \<not> isspace (last ''3.1'')"
    by simp_all
  with m show ?thesis by blast
qed

text \<open>
  C5, as amended. When bench-output.log exists, both scripts end without an exception
  and parse-bench-summary.py writes bench-summary.md. When at least one record was parsed,
  parse-bench-summary.py sends to standard output exactly what parse-bench-output.py
  sends. When no record was parsed, parse-bench-summary.py prints nothing (its \<open>if\<close> has
  no \<open>else\<close>), and parse-bench-output.py prints the informational line.
\<close>

theorem summary_prints_the_table:
  assumes "bench_output_log w = Some content"
  shows "fst (parse_bench_summary w) = None \<and> fst (parse_bench_output w) = None
     \<and> bench_summary_md (snd (parse_bench_summary w)) \<noteq> None
     \<and> (results_output content \<noteq> [] \<longrightarrow>
          stdout (snd (parse_bench_summary w)) = stdout (snd (parse_bench_output w)))
     \<and> (results_output content = [] \<longrightarrow>
          stdout (snd (parse_bench_summary w)) = stdout w
          \<and> stdout (snd (parse_bench_output w)) = stdout w @ ''No benchmark results found\<newline>'')"
proof (cases "results_output content = []")
  case True
  then show ?thesis
    by (simp add: parse_bench_summary_ok [OF assms] parse_bench_output_ok [OF assms]
        print_summary_def print_output_def print_def)
next
  case False
  then show ?thesis
    by (simp add: parse_bench_summary_ok [OF assms] parse_bench_output_ok [OF assms]
        print_summary_ok [OF results_output_all_4] print_output_ok [OF results_output_all_4])
qed

text \<open>
  The theorem at a log with one record and at a log with none.
\<close>

theorem summary_prints_the_table_witness:
  "stdout (snd (parse_bench_summary
       \<lparr>bench_output_log = Some ''Runtime Min\<newline>| go | 1 | 5 | 3 |'', bench_summary_md = None, stdout = ''''\<rparr>))
     = stdout (snd (parse_bench_output
       \<lparr>bench_output_log = Some ''Runtime Min\<newline>| go | 1 | 5 | 3 |'', bench_summary_md = None, stdout = ''''\<rparr>))
   \<and> stdout (snd (parse_bench_summary
       \<lparr>bench_output_log = Some ''no table'', bench_summary_md = None, stdout = ''$ ''\<rparr>)) = ''$ ''
   \<and> stdout (snd (parse_bench_output
       \<lparr>bench_output_log = Some ''no table'', bench_summary_md = None, stdout = ''$ ''\<rparr>))
     = ''$ No benchmark results found\<newline>''"
proof -
  let ?w1 = "\<lparr>bench_output_log = Some ''Runtime Min\<newline>| go | 1 | 5 | 3 |'', bench_summary_md = None, stdout = ''''\<rparr>"
  let ?w2 = "\<lparr>bench_output_log = Some ''no table'', bench_summary_md = None, stdout = ''$ ''\<rparr>"
  have l1: "bench_output_log ?w1 = Some ''Runtime Min\<newline>| go | 1 | 5 | 3 |''" by simp
  have l2: "bench_output_log ?w2 = Some ''no table''" by simp
  have r1: "results_output ''Runtime Min\<newline>| go | 1 | 5 | 3 |'' \<noteq> []"
    by (simp add: results_output_def parts_of_def strip_def isspace_def)
  have r2: "results_output ''no table'' = []"
    by (simp add: results_output_def parts_of_def strip_def isspace_def)
  from summary_prints_the_table [OF l1] r1 summary_prints_the_table [OF l2] r2
  show ?thesis by simp
qed

text \<open>
  C5 as stated fails in the empty case: on an empty log parse-bench-summary.py prints
  nothing and parse-bench-output.py prints the informational line.
\<close>

theorem summary_prints_nothing_when_empty:
  "stdout (snd (parse_bench_summary \<lparr>bench_output_log = Some '''', bench_summary_md = None, stdout = ''''\<rparr>)) = ''''
   \<and> stdout (snd (parse_bench_output \<lparr>bench_output_log = Some '''', bench_summary_md = None, stdout = ''''\<rparr>))
       = ''No benchmark results found\<newline>''"
  by (simp add: parse_bench_summary_def parse_bench_output_def results_summary_def
      results_output_def write_summary_def print_summary_def print_output_def f_write_def print_def)

text \<open>
  C6. When a blank line comes after a header-trigger line, the records are those of
  the lines before the blank line, whatever follows it. In the table, a line that is not
  blank and has no pipe changes nothing and the scan goes on with the next line. The
  log of the specification, a header, a "go" row, a blank line and a "rust" row, gives
  the one record of "go".
\<close>

theorem scan_stops_at_blank_line:
  "(split (CHR 0x0A) content = pre @ blank # post \<and> (\<exists>l\<in>set pre. header_trigger l) \<and> strip blank = []
      \<longrightarrow> results_output content = scan_output False [] pre
        \<and> results_summary content = scan_summary False [] pre)
   \<and> (strip line \<noteq> [] \<and> \<not> contains ''|'' line
      \<longrightarrow> scan_output True results (line # rest) = scan_output True results rest
        \<and> scan_summary True results (line # rest) = scan_summary True results rest)
   \<and> results_output ''Runtime Min Max Avg\<newline>| go | 1 | 5 | 3 |\<newline>\<newline>| rust | 1 | 2 | 1 |''
        = [[''go'', ''1'', ''5'', ''3'']]"
proof (intro conjI impI)
  assume a: "split (CHR 0x0A) content = pre @ blank # post \<and> (\<exists>l\<in>set pre. header_trigger l) \<and> strip blank = []"
  then have "scan_output False [] (pre @ blank # post) = scan_output False [] pre"
    by (intro scan_output_stop) simp_all
  with a show "results_output content = scan_output False [] pre"
    by (simp add: results_output_def)
  then show "results_summary content = scan_summary False [] pre"
    by (simp add: results_summary_eq scan_summary_eq)
next
  assume "strip line \<noteq> [] \<and> \<not> contains ''|'' line"
  then show "scan_output True results (line # rest) = scan_output True results rest"
    by simp
  then show "scan_summary True results (line # rest) = scan_summary True results rest"
    by (simp only: scan_summary_eq)
next
  show "results_output ''Runtime Min Max Avg\<newline>| go | 1 | 5 | 3 |\<newline>\<newline>| rust | 1 | 2 | 1 |''
        = [[''go'', ''1'', ''5'', ''3'']]"
    by (simp add: results_output_def parts_of_def strip_def isspace_def)
qed

text \<open>
  The theorem at the log of the specification, and at a line without a pipe coming
  before a row.
\<close>

theorem scan_stops_at_blank_line_witness:
  "results_output ''Runtime Min Max Avg\<newline>| go | 1 | 5 | 3 |\<newline>\<newline>| rust | 1 | 2 | 1 |''
     = scan_output False [] [''Runtime Min Max Avg'', ''| go | 1 | 5 | 3 |'']
   \<and> scan_output True [[''go'', ''1'', ''5'', ''3'']] [''-- end of go --'', ''| rust | 1 | 2 | 1 |'']
     = scan_output True [[''go'', ''1'', ''5'', ''3'']] [''| rust | 1 | 2 | 1 |'']"
proof -
  let ?c = "''Runtime Min Max Avg\<newline>| go | 1 | 5 | 3 |\<newline>\<newline>| rust | 1 | 2 | 1 |''"
  let ?pre = "[''Runtime Min Max Avg'', ''| go | 1 | 5 | 3 |'']"
  have 1: "split (CHR 0x0A) ?c = ?pre @ '''' # [''| rust | 1 | 2 | 1 |'']
             \<and> (\<exists>l\<in>set ?pre. header_trigger l) \<and> strip '''' = []"
    by (simp add: header_trigger_def strip_def)
  have 2: "strip ''-- end of go --'' \<noteq> [] \<and> \<not> contains ''|'' ''-- end of go --''"
    by (simp add: strip_def isspace_def)
  from scan_stops_at_blank_line [of ?c ?pre "''''" "[''| rust | 1 | 2 | 1 |'']"] 1
  have a: "results_output ?c = scan_output False [] ?pre" by blast
  from scan_stops_at_blank_line [of _ _ _ _ "''-- end of go --''" "[[''go'', ''1'', ''5'', ''3'']]"
      "[''| rust | 1 | 2 | 1 |'']"] 2
  have b: "scan_output True [[''go'', ''1'', ''5'', ''3'']] [''-- end of go --'', ''| rust | 1 | 2 | 1 |'']
     = scan_output True [[''go'', ''1'', ''5'', ''3'']] [''| rust | 1 | 2 | 1 |'']" by blast
  from a b show ?thesis by (rule conjI)
qed

text \<open>
  C7. When no line of the log has both "Runtime" and "Min", or when no line passes the
  test of line 19 (at least 4 segments, the first not "Runtime"), both parsing stages
  give no record, and parse-bench-output.py prints the one line "No benchmark results
  found" and ends without an exception.
\<close>

theorem no_table_is_no_error:
  assumes "(\<forall>l\<in>set (split (CHR 0x0A) content). \<not> header_trigger l)
           \<or> (\<forall>l\<in>set (split (CHR 0x0A) content). \<not> accepted l)"
    and "bench_output_log w = Some content"
  shows "results_output content = [] \<and> results_summary content = []
     \<and> parse_bench_output w = (None, w\<lparr>stdout := stdout w @ ''No benchmark results found\<newline>''\<rparr>)"
proof -
  from assms(1) have e: "results_output content = []"
    using results_output_no_trigger results_output_none_accepted by blast
  then show ?thesis
    by (simp add: results_summary_eq parse_bench_output_ok [OF assms(2)] print_output_def print_def)
qed

text \<open>
  The theorem at a log of pipe-delimited rows without a header, and at a log with a
  header, a short row and a repeated header.
\<close>

theorem no_table_is_no_error_witness:
  "parse_bench_output \<lparr>bench_output_log = Some ''| go | 1 | 5 | 3 |\<newline>| rust | 1 | 2 | 1 |'',
                       bench_summary_md = None, stdout = ''''\<rparr>
     = (None, \<lparr>bench_output_log = Some ''| go | 1 | 5 | 3 |\<newline>| rust | 1 | 2 | 1 |'',
               bench_summary_md = None, stdout = ''No benchmark results found\<newline>''\<rparr>)
   \<and> parse_bench_output \<lparr>bench_output_log = Some ''Runtime | Min | Max | Avg\<newline>| go | 1 | 5 |\<newline>| Runtime | a | b | c |'',
                         bench_summary_md = None, stdout = ''''\<rparr>
     = (None, \<lparr>bench_output_log = Some ''Runtime | Min | Max | Avg\<newline>| go | 1 | 5 |\<newline>| Runtime | a | b | c |'',
               bench_summary_md = None, stdout = ''No benchmark results found\<newline>''\<rparr>)"
proof -
  let ?c1 = "''| go | 1 | 5 | 3 |\<newline>| rust | 1 | 2 | 1 |''"
  let ?c2 = "''Runtime | Min | Max | Avg\<newline>| go | 1 | 5 |\<newline>| Runtime | a | b | c |''"
  let ?w1 = "\<lparr>bench_output_log = Some ?c1, bench_summary_md = None, stdout = ''''\<rparr>"
  let ?w2 = "\<lparr>bench_output_log = Some ?c2, bench_summary_md = None, stdout = ''''\<rparr>"
  have h1: "(\<forall>l\<in>set (split (CHR 0x0A) ?c1). \<not> header_trigger l)
            \<or> (\<forall>l\<in>set (split (CHR 0x0A) ?c1). \<not> accepted l)"
    by (simp add: header_trigger_def)
  have h2: "(\<forall>l\<in>set (split (CHR 0x0A) ?c2). \<not> header_trigger l)
            \<or> (\<forall>l\<in>set (split (CHR 0x0A) ?c2). \<not> accepted l)"
    by (simp add: accepted_def parts_of_def strip_def isspace_def)
  have l1: "bench_output_log ?w1 = Some ?c1" by simp
  have l2: "bench_output_log ?w2 = Some ?c2" by simp
  from no_table_is_no_error [OF h1 l1] no_table_is_no_error [OF h2 l2]
  show ?thesis by simp
qed

text \<open>
  C8. When bench-output.log exists, parse-bench-summary.py ends without an exception
  and bench-summary.md holds, whatever it held before: the heading "Performance
  Benchmarks", the header row, the row of dashes, one row per record with its fields 0 to
  3 as they are, and the line "**Total runtimes tested:**" with the number of records.
  With no record that is the heading, the two rows and a total of 0.
\<close>

theorem markdown_summary_text:
  assumes "bench_output_log w = Some content"
  shows "fst (parse_bench_summary w) = None
     \<and> bench_summary_md (snd (parse_bench_summary w)) =
         Some (''\<newline>## Performance Benchmarks\<newline>\<newline>''
               @ ''| Runtime | Min | Max | Avg |\<newline>''
               @ ''|--------|-----|-----|-----|\<newline>''
               @ concat (map (\<lambda>r. ''| '' @ r ! 0 @ '' | '' @ r ! 1 @ '' | '' @ r ! 2 @ '' | '' @ r ! 3 @ '' |\<newline>'')
                           (results_summary content))
               @ ''\<newline>**Total runtimes tested:** '' @ str_int (length (results_summary content)) @ ''\<newline>'')
     \<and> (results_summary content = [] \<longrightarrow>
          bench_summary_md (snd (parse_bench_summary w)) =
            Some ''\<newline>## Performance Benchmarks\<newline>\<newline>| Runtime | Min | Max | Avg |\<newline>|--------|-----|-----|-----|\<newline>\<newline>**Total runtimes tested:** 0\<newline>'')"
proof (cases "results_output content = []")
  case True
  then show ?thesis
    by (simp add: parse_bench_summary_ok [OF assms] results_summary_eq print_summary_def
        str_int_0)
next
  case False
  then show ?thesis
    by (simp add: parse_bench_summary_ok [OF assms] results_summary_eq
        print_summary_ok [OF results_output_all_4] print_output_ok [OF results_output_all_4])
qed

text \<open>
  The theorem at a log with two records, over an older bench-summary.md, and at a log
  with no record.
\<close>

theorem markdown_summary_text_witness:
  "bench_summary_md (snd (parse_bench_summary
       \<lparr>bench_output_log = Some ''Runtime Min\<newline>| go | 1.2 | 5.6 | 3.1 |\<newline>| rust | 1 | 2 | 1 | x |'',
        bench_summary_md = Some ''old'', stdout = ''''\<rparr>))
     = Some ''\<newline>## Performance Benchmarks\<newline>\<newline>| Runtime | Min | Max | Avg |\<newline>|--------|-----|-----|-----|\<newline>| go | 1.2 | 5.6 | 3.1 |\<newline>| rust | 1 | 2 | 1 |\<newline>\<newline>**Total runtimes tested:** 2\<newline>''
   \<and> bench_summary_md (snd (parse_bench_summary
       \<lparr>bench_output_log = Some ''nothing here'', bench_summary_md = None, stdout = ''''\<rparr>))
     = Some ''\<newline>## Performance Benchmarks\<newline>\<newline>| Runtime | Min | Max | Avg |\<newline>|--------|-----|-----|-----|\<newline>\<newline>**Total runtimes tested:** 0\<newline>''"
proof -
  let ?c1 = "''Runtime Min\<newline>| go | 1.2 | 5.6 | 3.1 |\<newline>| rust | 1 | 2 | 1 | x |''"
  let ?w1 = "\<lparr>bench_output_log = Some ?c1, bench_summary_md = Some ''old'', stdout = ''''\<rparr>"
  let ?w2 = "\<lparr>bench_output_log = Some ''nothing here'', bench_summary_md = None, stdout = ''''\<rparr>"
  have l1: "bench_output_log ?w1 = Some ?c1" by simp
  have l2: "bench_output_log ?w2 = Some ''nothing here''" by simp
  have r1: "results_summary ?c1 = [[''go'', ''1.2'', ''5.6'', ''3.1''], [''rust'', ''1'', ''2'', ''1'', ''x'']]"
    by (simp add: results_summary_def parts_of_def strip_def isspace_def)
  have r2: "results_summary ''nothing here'' = []"
    by (simp add: results_summary_def)
  have s2: "str_int (Suc (Suc 0)) = ''2''" by code_simp
  from markdown_summary_text [OF l1] markdown_summary_text [OF l2] r2
  show ?thesis unfolding r1 by (simp add: s2 str_int_0)
qed

text \<open>
  C9. When bench-output.log exists and at least one record was parsed,
  parse-bench-output.py ends without an exception and has printed the header row, the
  row of dashes, one row per record with field 0 followed by spaces up to 7 characters
  and fields 1 to 3 followed by spaces up to 5 characters, between "| ", " | " and " |",
  and the line "Total: n runtimes tested". The row of ("go", "1.2", "5.6", "3.1") is the
  one of the specification.
\<close>

theorem console_table_text:
  assumes "bench_output_log w = Some content" and "results_output content \<noteq> []"
  shows "parse_bench_output w =
       (None, w\<lparr>stdout := stdout w
          @ ''\<newline>| Runtime | Min   | Max   | Avg   |\<newline>''
          @ ''|---------|-------|-------|-------|\<newline>''
          @ concat (map (\<lambda>r. ''| '' @ r ! 0 @ replicate (7 - length (r ! 0)) (CHR '' '')
                             @ '' | '' @ r ! 1 @ replicate (5 - length (r ! 1)) (CHR '' '')
                             @ '' | '' @ r ! 2 @ replicate (5 - length (r ! 2)) (CHR '' '')
                             @ '' | '' @ r ! 3 @ replicate (5 - length (r ! 3)) (CHR '' '')
                             @ '' |\<newline>'')
                      (results_output content))
          @ ''\<newline>Total: '' @ str_int (length (results_output content)) @ '' runtimes tested\<newline>''\<rparr>)
     \<and> console_row [''go'', ''1.2'', ''5.6'', ''3.1''] = Inr ''| go      | 1.2   | 5.6   | 3.1   |''"
proof
  show "console_row [''go'', ''1.2'', ''5.6'', ''3.1''] = Inr ''| go      | 1.2   | 5.6   | 3.1   |''"
    by (simp add: console_row_def getitem_def bind_err_def ljust_def eval_nat_numeral)
  show "parse_bench_output w =
       (None, w\<lparr>stdout := stdout w
          @ ''\<newline>| Runtime | Min   | Max   | Avg   |\<newline>''
          @ ''|---------|-------|-------|-------|\<newline>''
          @ concat (map (\<lambda>r. ''| '' @ r ! 0 @ replicate (7 - length (r ! 0)) (CHR '' '')
                             @ '' | '' @ r ! 1 @ replicate (5 - length (r ! 1)) (CHR '' '')
                             @ '' | '' @ r ! 2 @ replicate (5 - length (r ! 2)) (CHR '' '')
                             @ '' | '' @ r ! 3 @ replicate (5 - length (r ! 3)) (CHR '' '')
                             @ '' |\<newline>'')
                      (results_output content))
          @ ''\<newline>Total: '' @ str_int (length (results_output content)) @ '' runtimes tested\<newline>''\<rparr>)"
    using assms(2)
    by (simp add: parse_bench_output_ok [OF assms(1)] print_output_ok [OF results_output_all_4]
        ljust_def)
qed

text \<open>
  The theorem at a log with two records; the fields of the second are longer than
  the widths and are printed whole.
\<close>

theorem console_table_text_witness:
  "parse_bench_output \<lparr>bench_output_log = Some ''Runtime Min\<newline>| go | 1.2 | 5.6 | 3.1 |\<newline>| javascript | 10.25 | 200.125 | 99 |'',
                       bench_summary_md = None, stdout = ''''\<rparr>
     = (None, \<lparr>bench_output_log = Some ''Runtime Min\<newline>| go | 1.2 | 5.6 | 3.1 |\<newline>| javascript | 10.25 | 200.125 | 99 |'',
               bench_summary_md = None,
               stdout = ''\<newline>| Runtime | Min   | Max   | Avg   |\<newline>|---------|-------|-------|-------|\<newline>| go      | 1.2   | 5.6   | 3.1   |\<newline>| javascript | 10.25 | 200.125 | 99    |\<newline>\<newline>Total: 2 runtimes tested\<newline>''\<rparr>)"
proof -
  let ?c = "''Runtime Min\<newline>| go | 1.2 | 5.6 | 3.1 |\<newline>| javascript | 10.25 | 200.125 | 99 |''"
  let ?w = "\<lparr>bench_output_log = Some ?c, bench_summary_md = None, stdout = ''''\<rparr>"
  have l: "bench_output_log ?w = Some ?c" by simp
  have r: "results_output ?c = [[''go'', ''1.2'', ''5.6'', ''3.1''], [''javascript'', ''10.25'', ''200.125'', ''99'']]"
    by (simp add: results_output_def parts_of_def strip_def isspace_def)
  then have ne: "results_output ?c \<noteq> []" by simp
  have s2: "str_int (Suc (Suc 0)) = ''2''" by code_simp
  from console_table_text [OF l ne]
  show ?thesis unfolding r by (simp add: s2 eval_nat_numeral)
qed

end
